theory Spec2Isabelle
  imports Main "HOL-Library.Sublist"
begin

section \<open>Regular expressions as the selector rule uses them\<close>

text \<open>
  The Channel converter hands its base class one regular expression literal,
  \<^verbatim>\<open>/^(?:c(?:h(?:a(?:n(?:n(?:e(?:l)?)?)?)?)?)?|s(?:e(?:n(?:d(?:e(?:r)?)?)?)?)?|!)$/u\<close>.
  The fragment of the JavaScript pattern language it is written in has literal
  characters, the assertions \<^verbatim>\<open>^\<close> and \<^verbatim>\<open>$\<close>, sequencing, alternation and the greedy
  quantifier \<^verbatim>\<open>?\<close>; a non-capturing group \<^verbatim>\<open>(?:...)\<close> only brackets. The literal carries
  the flag \<^verbatim>\<open>u\<close> and no other: no \<^verbatim>\<open>i\<close>, so a literal character matches that
  character only, and no \<^verbatim>\<open>m\<close>, so \<^verbatim>\<open>^\<close> holds at index 0 only and \<^verbatim>\<open>$\<close> at the end of
  the input only.
\<close>

datatype regex =
    Chr char
  | Bol
  | Eol
  | Seq regex regex
  | Alt regex regex
  | Opt regex

text \<open>
  A backtracking matcher: from a position (the index reached and the input left) it
  lists the positions a match of the pattern can end at, in the order a backtracking
  engine tries them (for \<^verbatim>\<open>?\<close>: one occurrence first, none second).
\<close>

fun rmatch :: "regex \<Rightarrow> nat \<times> string \<Rightarrow> (nat \<times> string) list" where
  "rmatch (Chr c) (i, s) =
     (case s of [] \<Rightarrow> [] | x # xs \<Rightarrow> if x = c then [(Suc i, xs)] else [])"
| "rmatch Bol (i, s) = (if i = 0 then [(i, s)] else [])"
| "rmatch Eol (i, s) = (if s = [] then [(i, s)] else [])"
| "rmatch (Seq a b) st = concat (map (rmatch b) (rmatch a st))"
| "rmatch (Alt a b) st = rmatch a st @ rmatch b st"
| "rmatch (Opt a) st = rmatch a st @ [st]"

text \<open>
  \<^verbatim>\<open>RegExp.prototype.test\<close> of a pattern without the flags \<^verbatim>\<open>g\<close> and \<^verbatim>\<open>y\<close>: the
  pattern is tried at every start index, 0 up to the length of the input.
\<close>

definition regex_test :: "regex \<Rightarrow> string \<Rightarrow> bool" where
  "regex_test r s = list_ex (\<lambda>i. rmatch r (i, drop i s) \<noteq> []) [0..<Suc (length s)]"

section \<open>The query model and the text query builder\<close>

text \<open>
  Modelled from the spec: the enumeration \<^verbatim>\<open>Field\<close> of \<^verbatim>\<open>models\<close> is not part of the
  sources at hand; the converter uses \<^verbatim>\<open>Field.Channel\<close>, and the spec lists Channel, Topic,
  Title, Description, Duration and Timestamp.
\<close>

datatype Field = Channel | Topic | Title | Description | Duration | Timestamp

text \<open>
  Modelled from the spec: \<^verbatim>\<open>Operator\<close> of \<^verbatim>\<open>search-engine/query\<close>, the join of a text
  match, And or Or.
\<close>

datatype Operator = And | Or

text \<open>
  Modelled from the spec: \<^verbatim>\<open>QueryBody\<close> of \<^verbatim>\<open>search-engine/query\<close>, the tagged variant
  of the spec's data model: a text match over fields with a text and an operator, a range
  over one field with optional bounds, and a boolean combination with the sequences
  must, mustNot and should.
\<close>

datatype QueryBody =
    TextMatch "Field list" string Operator
  | Range' Field "int option" "int option"
  | Bool "QueryBody list" "QueryBody list" "QueryBody list"

text \<open>
  The failures of the spec's taxonomy, and the failure of a builder that is asked to
  build before its required fields are set. A conversion error carries the field and the
  raw text of the segment.
\<close>

datatype error =
    TokenizeError
  | UnknownSelectorError
  | ConversionError Field string
  | ValidationError

text \<open>
  Modelled from the spec: \<^verbatim>\<open>TextQueryBuilder\<close> of \<^verbatim>\<open>search-engine/query/builder\<close>, a
  fluent helper that assembles a text-match node and validates its required fields before
  finalization. A new builder has nothing set; each setter stores its argument; \<^verbatim>\<open>build\<close>
  fails unless at least one field, a text and an operator are set.
\<close>

record TextQueryBuilder =
  builder_fields :: "Field list"
  builder_text :: "string option"
  builder_operator :: "Operator option"

definition new_TextQueryBuilder :: TextQueryBuilder where
  "new_TextQueryBuilder =
     \<lparr>builder_fields = [], builder_text = None, builder_operator = None\<rparr>"

definition fields' :: "Field list \<Rightarrow> TextQueryBuilder \<Rightarrow> TextQueryBuilder" where
  "fields' fs b = b\<lparr>builder_fields := fs\<rparr>"

definition text' :: "string \<Rightarrow> TextQueryBuilder \<Rightarrow> TextQueryBuilder" where
  "text' t b = b\<lparr>builder_text := Some t\<rparr>"

definition operator :: "Operator \<Rightarrow> TextQueryBuilder \<Rightarrow> TextQueryBuilder" where
  "operator op b = b\<lparr>builder_operator := Some op\<rparr>"

definition build :: "TextQueryBuilder \<Rightarrow> error + QueryBody" where
  "build b =
     (case (builder_fields b, builder_text b, builder_operator b) of
        (f # fs, Some t, Some op) \<Rightarrow> Inr (TextMatch (f # fs) t op)
      | _ \<Rightarrow> Inl ValidationError)"

section \<open>The Channel segment converter\<close>

definition FIELD :: Field where
  "FIELD = Channel"

definition SELECTOR_REGEX :: regex where
  "SELECTOR_REGEX =
     Seq Bol (Seq
       (Alt (Seq (Chr CHR ''c'') (Opt (Seq (Chr CHR ''h'') (Opt (Seq (Chr CHR ''a'')
              (Opt (Seq (Chr CHR ''n'') (Opt (Seq (Chr CHR ''n'') (Opt (Seq (Chr CHR ''e'')
              (Opt (Chr CHR ''l'')))))))))))))
       (Alt (Seq (Chr CHR ''s'') (Opt (Seq (Chr CHR ''e'') (Opt (Seq (Chr CHR ''n'')
              (Opt (Seq (Chr CHR ''d'') (Opt (Seq (Chr CHR ''e'')
              (Opt (Chr CHR ''r'')))))))))))
            (Chr CHR ''!'')))
       Eol)"

text \<open>
  \<^verbatim>\<open>textToQuery\<close>: a new builder, its fields set to \<^verbatim>\<open>FIELD\<close>, its text to the argument,
  its operator to \<^verbatim>\<open>Operator.And\<close>, then built.
\<close>

definition textToQuery :: "string \<Rightarrow> error + QueryBody" where
  "textToQuery t =
     (let builder = new_TextQueryBuilder;
          query = build (operator And (text' t (fields' [FIELD] builder)))
      in query)"

section \<open>Segments, converters and the compiler\<close>

text \<open>
  Modelled from the spec: the segment of the spec's data model, which the tokenizer
  makes and the compiler consumes. Neither is part of the sources at hand.
\<close>

record Segment =
  rawText :: string
  selectorToken :: "string option"
  valueText :: string
  negated :: bool

text \<open>
  Modelled from the spec: a segment converter as the spec's contract has it, a pair of
  \<^verbatim>\<open>claims\<close> and \<^verbatim>\<open>convert\<close>, registered in an ordered table.
\<close>

record SegmentConverter =
  claims :: "Segment \<Rightarrow> bool"
  convert :: "Segment \<Rightarrow> error + QueryBody"

text \<open>
  Modelled from the spec: the base class \<^verbatim>\<open>SelectorSegmentConverterBase\<close> is not part
  of the sources at hand. By the spec's contract a converter claims a segment when its
  selector rule matches the segment's selector token, and a text converter converts the
  segment's value text. The selector rule of the Channel converter is the pattern its
  constructor passes on.
\<close>

definition ChannelSegmentConverter :: SegmentConverter where
  "ChannelSegmentConverter =
     \<lparr>claims = (\<lambda>segment. case selectorToken segment of
                    None \<Rightarrow> False
                  | Some t \<Rightarrow> regex_test SELECTOR_REGEX t),
      convert = (\<lambda>segment. textToQuery (valueText segment))\<rparr>"

text \<open>A pass over a list that stops at the first failure.\<close>

fun traverse :: "('a \<Rightarrow> error + 'b) \<Rightarrow> 'a list \<Rightarrow> error + 'b list" where
  "traverse f [] = Inr []"
| "traverse f (x # xs) =
     (case f x of
        Inl e \<Rightarrow> Inl e
      | Inr y \<Rightarrow> (case traverse f xs of Inl e \<Rightarrow> Inl e | Inr ys \<Rightarrow> Inr (y # ys)))"

text \<open>
  Modelled from the spec: step 2 of the compiler's algorithm. The first registered
  converter that claims the segment is taken. When none claims it, a selector token that
  is present and non-empty is an unknown selector; a segment with no selector token, or
  with an empty one, goes to the default converter (\<open>None\<close> here).
\<close>

definition resolve ::
  "SegmentConverter list \<Rightarrow> Segment \<Rightarrow> error + (Segment \<times> SegmentConverter option)" where
  "resolve registeredConverters segment =
     (case find (\<lambda>c. claims c segment) registeredConverters of
        Some c \<Rightarrow> Inr (segment, Some c)
      | None \<Rightarrow>
          (case selectorToken segment of
             Some t \<Rightarrow> if t \<noteq> [] then Inl UnknownSelectorError else Inr (segment, None)
           | None \<Rightarrow> Inr (segment, None)))"

text \<open>
  Modelled from the spec: steps 3 and 4. The claiming converter converts the segment,
  and a conversion error is passed on tagged with the segment's raw text; the default
  converter makes a text match over the default fields with the operator And. The node
  is kept with the segment's negation flag, which decides in the fold whether it stands
  under must or under mustNot.
\<close>

definition convert_segment ::
  "Field list \<Rightarrow> Segment \<times> SegmentConverter option \<Rightarrow> error + (bool \<times> QueryBody)" where
  "convert_segment defaultFields sc =
     (case sc of
        (segment, Some c) \<Rightarrow>
          (case convert c segment of
             Inl (ConversionError f _) \<Rightarrow> Inl (ConversionError f (rawText segment))
           | Inl e \<Rightarrow> Inl e
           | Inr q \<Rightarrow> Inr (negated segment, q))
      | (segment, None) \<Rightarrow>
          Inr (negated segment, TextMatch defaultFields (valueText segment) And))"

text \<open>
  Modelled from the spec: step 5. The nodes of the segments that are not negated go
  under must, those of the negated segments under mustNot, each in input order; exactly
  one node under must and none under mustNot is returned as it is.
\<close>

definition fold_nodes :: "(bool \<times> QueryBody) list \<Rightarrow> QueryBody" where
  "fold_nodes nodes =
     (let must = map snd (filter (\<lambda>n. \<not> fst n) nodes);
          mustNot = map snd (filter fst nodes)
      in case (must, mustNot) of
           ([node], []) \<Rightarrow> node
         | _ \<Rightarrow> Bool must mustNot [])"

text \<open>
  Modelled from the spec: steps 1 to 4 of \<^verbatim>\<open>compile\<close>, each a pass over all segments in
  the order the spec numbers them. The tokenizer of the spec is a parameter: what the
  compiler does with the segments does not depend on how they were cut.
\<close>

definition per_segment_nodes ::
  "(string \<Rightarrow> error + Segment list) \<Rightarrow> string \<Rightarrow> SegmentConverter list \<Rightarrow> Field list
     \<Rightarrow> error + (bool \<times> QueryBody) list" where
  "per_segment_nodes tokenize input registeredConverters defaultFields =
     (case tokenize input of
        Inl e \<Rightarrow> Inl e
      | Inr segments \<Rightarrow>
          (case traverse (resolve registeredConverters) segments of
             Inl e \<Rightarrow> Inl e
           | Inr resolved \<Rightarrow> traverse (convert_segment defaultFields) resolved))"

text \<open>Modelled from the spec: \<^verbatim>\<open>compile\<close>, the per-segment nodes folded (steps 5 and 6).\<close>

definition compile ::
  "(string \<Rightarrow> error + Segment list) \<Rightarrow> string \<Rightarrow> SegmentConverter list \<Rightarrow> Field list
     \<Rightarrow> error + QueryBody" where
  "compile tokenize input registeredConverters defaultFields =
     (case per_segment_nodes tokenize input registeredConverters defaultFields of
        Inl e \<Rightarrow> Inl e
      | Inr nodes \<Rightarrow> Inr (fold_nodes nodes))"

section \<open>The filmlist manager\<close>

text \<open>
  The module works on collaborators that are handed to its constructor: a key-value
  repository, the repository of filmlist imports, the import queue, the filmlist
  provider and a cancellation token; it reads the clock with \<^verbatim>\<open>currentTimestamp\<close>.
  Their implementations are outside the sources at hand. They are modelled as one world
  that every operation takes and returns: the repositories and the queue as the values
  they hold, the clock and the token as sequences of readings, and with them the calls
  made on the repositories and the queue, in the order they were made. Timestamps and
  intervals are whole milliseconds.
\<close>

datatype FilmlistMetadata = FilmlistMetadata string

record FilmlistResource =
  resource_id :: string
  resource_timestamp :: int

record Filmlist =
  resource :: FilmlistResource

text \<open>
  The object literal \<^verbatim>\<open>enqueueFilmlist\<close> builds has no id; the repository returns the
  saved import with one.
\<close>

record FilmlistImportWithPartialId =
  import_resource :: FilmlistResource
  state :: string
  enqueueTimestamp :: int
  filmlistMetadata :: "FilmlistMetadata option"
  importTimestamp :: "int option"
  importDuration :: "int option"
  entriesCount :: "int option"

record FilmlistImport = FilmlistImportWithPartialId +
  import_id :: string

record FilmlistImportQueueItem =
  filmlistImportId :: string

text \<open>The keys of \<^verbatim>\<open>FilmlistManagerKeyValues\<close>, and the values stored under them, if any.\<close>

datatype FilmlistManagerKey = LastLatestCheck | LastArchiveCheck

record FilmlistManagerKeyValues =
  lastLatestCheck :: "int option"
  lastArchiveCheck :: "int option"

datatype call =
    KeyValueSet FilmlistManagerKey int
  | ImportSaved FilmlistImport
  | ItemEnqueued FilmlistImportQueueItem

text \<open>
  The field \<^verbatim>\<open>enqueuedFilmlistsCount\<close> is a JavaScript number that the constructor does
  not initialize: \<^verbatim>\<open>++\<close> on \<^verbatim>\<open>undefined\<close> gives \<^verbatim>\<open>NaN\<close>, and on \<^verbatim>\<open>NaN\<close> again \<^verbatim>\<open>NaN\<close>.
\<close>

datatype counter = Undefined | NaN | Number int

record world =
  keyValues :: FilmlistManagerKeyValues
  filmlistImports :: "FilmlistImport list"
  queueItems :: "FilmlistImportQueueItem list"
  enqueuedFilmlistsCount :: counter
  clockReads :: nat
  tokenPolls :: nat
  calls :: "call list"

text \<open>
  What the module does not decide: the reading of the clock at its n-th read, the state
  of the cancellation token at its n-th poll, the id the repository gives to an import
  it saves, the configured intervals and range, and the filmlists the provider offers.
\<close>

record environment =
  clock :: "nat \<Rightarrow> int"
  cancellationIsSet :: "nat \<Rightarrow> bool"
  generateId :: "FilmlistImport list \<Rightarrow> string"
  latestCheckIntervalMinutes :: int
  archiveCheckIntervalMinutes :: int
  archiveRange :: int
  getLatest :: "Filmlist list"
  getArchive :: "Filmlist list"

definition LATEST_CHECK_INTERVAL :: "environment \<Rightarrow> int" where
  "LATEST_CHECK_INTERVAL env = latestCheckIntervalMinutes env * 60 * 1000"

definition ARCHIVE_CHECK_INTERVAL :: "environment \<Rightarrow> int" where
  "ARCHIVE_CHECK_INTERVAL env = archiveCheckIntervalMinutes env * 60 * 1000"

definition MAX_AGE_MILLISECONDS :: "environment \<Rightarrow> int" where
  "MAX_AGE_MILLISECONDS env = archiveRange env * 24 * 60 * 60 * 1000"

definition currentTimestamp :: "environment \<Rightarrow> world \<Rightarrow> int \<times> world" where
  "currentTimestamp env w = (clock env (clockReads w), w\<lparr>clockReads := Suc (clockReads w)\<rparr>)"

text \<open>
  Modelled from the spec: the key-value repository is an external service that the spec
  takes to be reliable. \<^verbatim>\<open>get(scope, key, defaultValue)\<close> gives the value stored under
  the key, or the default when none is stored; \<^verbatim>\<open>set(scope, key, value)\<close> stores the
  value. The scope is the one scope the module uses.
\<close>

definition keyValue_get :: "FilmlistManagerKey \<Rightarrow> int \<Rightarrow> world \<Rightarrow> int" where
  "keyValue_get key defaultValue w =
     (case (case key of LastLatestCheck \<Rightarrow> lastLatestCheck (keyValues w)
                      | LastArchiveCheck \<Rightarrow> lastArchiveCheck (keyValues w)) of
        None \<Rightarrow> defaultValue
      | Some v \<Rightarrow> v)"

definition keyValue_set :: "FilmlistManagerKey \<Rightarrow> int \<Rightarrow> world \<Rightarrow> world" where
  "keyValue_set key v w =
     w\<lparr>keyValues := (case key of
                        LastLatestCheck \<Rightarrow> (keyValues w)\<lparr>lastLatestCheck := Some v\<rparr>
                      | LastArchiveCheck \<Rightarrow> (keyValues w)\<lparr>lastArchiveCheck := Some v\<rparr>),
       calls := calls w @ [KeyValueSet key v]\<rparr>"

text \<open>
  Modelled from the spec: the repository of filmlist imports and the import queue are
  external services that the spec takes to be reliable. \<^verbatim>\<open>hasResource(id)\<close>: some saved
  import has a resource of that id. \<^verbatim>\<open>save(filmlistImport)\<close>: the import is stored under
  an id the repository chooses and returned with it. \<^verbatim>\<open>enqueue(item)\<close>: the item is
  added to the queue.
\<close>

definition hasResource :: "string \<Rightarrow> world \<Rightarrow> bool" where
  "hasResource rid w =
     list_ex (\<lambda>i. resource_id (import_resource i) = rid) (filmlistImports w)"

definition save ::
  "environment \<Rightarrow> FilmlistImportWithPartialId \<Rightarrow> world \<Rightarrow> FilmlistImport \<times> world" where
  "save env filmlistImport w =
     (let inserted = \<lparr>import_resource = import_resource filmlistImport,
                       state = state filmlistImport,
                       enqueueTimestamp = enqueueTimestamp filmlistImport,
                       filmlistMetadata = filmlistMetadata filmlistImport,
                       importTimestamp = importTimestamp filmlistImport,
                       importDuration = importDuration filmlistImport,
                       entriesCount = entriesCount filmlistImport,
                       import_id = generateId env (filmlistImports w)\<rparr>
      in (inserted, w\<lparr>filmlistImports := filmlistImports w @ [inserted],
                       calls := calls w @ [ImportSaved inserted]\<rparr>))"

definition enqueue :: "FilmlistImportQueueItem \<Rightarrow> world \<Rightarrow> world" where
  "enqueue item w =
     w\<lparr>queueItems := queueItems w @ [item], calls := calls w @ [ItemEnqueued item]\<rparr>"

definition increment :: "counter \<Rightarrow> counter" where
  "increment c = (case c of Number n \<Rightarrow> Number (n + 1) | _ \<Rightarrow> NaN)"

text \<open>
  \<^verbatim>\<open>compareTime\<close>. The guarded function is any function on the world that completes
  (\<open>None\<close>) or throws (\<open>Some\<close> of what it throws), leaving the world as it was at that
  moment. The stored timestamp is read first, then the clock; the function runs only
  when the difference reaches the interval, and the clock reading taken before it ran is
  stored only after it has completed.
\<close>

definition compareTime ::
  "environment \<Rightarrow> FilmlistManagerKey \<Rightarrow> int \<Rightarrow> (world \<Rightarrow> string option \<times> world) \<Rightarrow> world
     \<Rightarrow> string option \<times> world" where
  "compareTime env key interval func w =
     (let lastCheck = keyValue_get key 0 w;
          (now, w1) = currentTimestamp env w;
          difference = now - lastCheck
      in if difference \<ge> interval
         then (case func w1 of
                 (Some thrown, w2) \<Rightarrow> (Some thrown, w2)
               | (None, w2) \<Rightarrow> (None, keyValue_set key now w2))
         else (None, w1))"

definition enqueueFilmlist :: "environment \<Rightarrow> Filmlist \<Rightarrow> world \<Rightarrow> world" where
  "enqueueFilmlist env filmlist w =
     (let (now, w1) = currentTimestamp env w;
          filmlistImport = \<lparr>import_resource = resource filmlist,
                             state = ''pending'',
                             enqueueTimestamp = now,
                             filmlistMetadata = None,
                             importTimestamp = None,
                             importDuration = None,
                             entriesCount = None\<rparr>;
          (insertedFilmlistImport, w2) = save env filmlistImport w1;
          filmlistImportQueueItem = \<lparr>filmlistImportId = import_id insertedFilmlistImport\<rparr>;
          w3 = enqueue filmlistImportQueueItem w2
      in w3\<lparr>enqueuedFilmlistsCount := increment (enqueuedFilmlistsCount w3)\<rparr>)"

text \<open>
  \<^verbatim>\<open>enqueueMissingFilmlists\<close>. The filmlists are a finite sequence, and the stages of the
  enumerable are lazy: each filmlist passes \<^verbatim>\<open>while\<close>, the two filters and \<^verbatim>\<open>forEach\<close>
  before the next one is taken, so \<^verbatim>\<open>hasResource\<close> sees the imports saved for the earlier
  filmlists. The stage \<^verbatim>\<open>while\<close> hands a filmlist on first and asks its predicate when
  the next one is requested: the token is polled after each filmlist has been dealt
  with, and the enumeration ends at the first poll that finds the token set. A filmlist
  that is taken is therefore dealt with even when the token is set already.
\<close>

fun enqueueMissingFilmlists ::
  "environment \<Rightarrow> Filmlist list \<Rightarrow> int \<Rightarrow> world \<Rightarrow> world" where
  "enqueueMissingFilmlists env [] minimumTimestamp w = w"
| "enqueueMissingFilmlists env (filmlist # rest) minimumTimestamp w =
     (let w1 = (if resource_timestamp (resource filmlist) \<ge> minimumTimestamp
                   \<and> \<not> hasResource (resource_id (resource filmlist)) w
                then enqueueFilmlist env filmlist w
                else w);
          w2 = w1\<lparr>tokenPolls := Suc (tokenPolls w1)\<rparr>
      in if cancellationIsSet env (tokenPolls w1) then w2
         else enqueueMissingFilmlists env rest minimumTimestamp w2)"

definition checkLatest :: "environment \<Rightarrow> world \<Rightarrow> string option \<times> world" where
  "checkLatest env w = (None, enqueueMissingFilmlists env (getLatest env) 0 w)"

definition checkArchive :: "environment \<Rightarrow> world \<Rightarrow> string option \<times> world" where
  "checkArchive env w =
     (let (now, w1) = currentTimestamp env w;
          minimumTimestamp = now - MAX_AGE_MILLISECONDS env
      in (None, enqueueMissingFilmlists env (getArchive env) minimumTimestamp w1))"

definition check :: "environment \<Rightarrow> world \<Rightarrow> string option \<times> world" where
  "check env w =
     (case compareTime env LastLatestCheck (LATEST_CHECK_INTERVAL env) (checkLatest env) w of
        (Some thrown, w1) \<Rightarrow> (Some thrown, w1)
      | (None, w1) \<Rightarrow>
          compareTime env LastArchiveCheck (ARCHIVE_CHECK_INTERVAL env) (checkArchive env) w1)"

section \<open>Notions the statements use\<close>

text \<open>
  A case variant of a token: a token that differs from it in the case of ASCII letters
  only.
\<close>

definition ascii_lower :: "char \<Rightarrow> char" where
  "ascii_lower c =
     (case map_of (zip ''ABCDEFGHIJKLMNOPQRSTUVWXYZ'' ''abcdefghijklmnopqrstuvwxyz'') c of
        None \<Rightarrow> c
      | Some l \<Rightarrow> l)"

definition case_variant :: "string \<Rightarrow> string \<Rightarrow> bool" where
  "case_variant t t' = (map ascii_lower t' = map ascii_lower t)"

text \<open>The fourteen tokens of the selector pattern's language.\<close>

definition selector_tokens :: "string list" where
  "selector_tokens =
     [''c'', ''ch'', ''cha'', ''chan'', ''chann'', ''channe'', ''channel'',
      ''s'', ''se'', ''sen'', ''send'', ''sende'', ''sender'', ''!'']"

text \<open>
  A proof device: a pattern accepts from a position under a continuation when one of
  the end positions satisfies the continuation. Its equations turn a match of a fixed
  pattern into a formula about the input.
\<close>

definition accepts :: "regex \<Rightarrow> (nat \<times> string \<Rightarrow> bool) \<Rightarrow> nat \<times> string \<Rightarrow> bool" where
  "accepts r k st = list_ex k (rmatch r st)"

text \<open>
  The segments of three inputs, as the tokenizer of the spec cuts them: the selector
  before the separator, the value after it.
\<close>

definition scenario_tokenize :: "string \<Rightarrow> error + Segment list" where
  "scenario_tokenize input =
     (if input = ''xyz:value''
      then Inr [\<lparr>rawText = ''xyz:value'', selectorToken = Some ''xyz'',
                 valueText = ''value'', negated = False\<rparr>]
      else if input = ''c:arte''
      then Inr [\<lparr>rawText = ''c:arte'', selectorToken = Some ''c'',
                 valueText = ''arte'', negated = False\<rparr>]
      else if input = '':arte''
      then Inr [\<lparr>rawText = '':arte'', selectorToken = Some [],
                 valueText = ''arte'', negated = False\<rparr>]
      else Inl TokenizeError)"

text \<open>
  The queue item that refers to a saved import; an import as \<^verbatim>\<open>enqueueFilmlist\<close> makes
  it; the imports a run has added to the repository; and what is required of them, one
  after the other in the order they were added: the import is pending, its resource is
  the resource of one of the filmlists offered, the resource is not older than the
  minimum timestamp, and the repository, as it stood when the import was added (with
  the imports added before it in the same run), held no import of that resource.
\<close>

definition queueItem_of :: "FilmlistImport \<Rightarrow> FilmlistImportQueueItem" where
  "queueItem_of i = \<lparr>filmlistImportId = import_id i\<rparr>"

definition pending_import :: "FilmlistImport \<Rightarrow> bool" where
  "pending_import i \<longleftrightarrow>
     state i = ''pending'' \<and> filmlistMetadata i = None \<and> importTimestamp i = None \<and>
     importDuration i = None \<and> entriesCount i = None"

definition added_imports :: "world \<Rightarrow> world \<Rightarrow> FilmlistImport list" where
  "added_imports w w' = drop (length (filmlistImports w)) (filmlistImports w')"

fun enqueued_only_missing ::
  "Filmlist list \<Rightarrow> int \<Rightarrow> world \<Rightarrow> FilmlistImport list \<Rightarrow> bool" where
  "enqueued_only_missing filmlists minimumTimestamp w [] = True"
| "enqueued_only_missing filmlists minimumTimestamp w (i # new) =
     (pending_import i \<and>
      minimumTimestamp \<le> resource_timestamp (import_resource i) \<and>
      \<not> hasResource (resource_id (import_resource i)) w \<and>
      list_ex (\<lambda>filmlist. resource filmlist = import_resource i) filmlists \<and>
      enqueued_only_missing filmlists minimumTimestamp
        (w\<lparr>filmlistImports := filmlistImports w @ [i]\<rparr>) new)"

text \<open>A small world to run the module in.\<close>

definition example_environment :: environment where
  "example_environment =
     \<lparr>clock = (\<lambda>n. 100000 + int n),
      cancellationIsSet = (\<lambda>n. False),
      generateId = (\<lambda>imports. replicate (Suc (length imports)) CHR ''i''),
      latestCheckIntervalMinutes = 1,
      archiveCheckIntervalMinutes = 60,
      archiveRange = 30,
      getLatest = [\<lparr>resource = \<lparr>resource_id = ''latest'', resource_timestamp = 5\<rparr>\<rparr>],
      getArchive = []\<rparr>"

definition example_world :: world where
  "example_world =
     \<lparr>keyValues = \<lparr>lastLatestCheck = None, lastArchiveCheck = Some 99000\<rparr>,
      filmlistImports = [],
      queueItems = [],
      enqueuedFilmlistsCount = Undefined,
      clockReads = 0,
      tokenPolls = 0,
      calls = []\<rparr>"

definition example_filmlists :: "Filmlist list" where
  "example_filmlists =
     [\<lparr>resource = \<lparr>resource_id = ''a'', resource_timestamp = 5\<rparr>\<rparr>,
      \<lparr>resource = \<lparr>resource_id = ''b'', resource_timestamp = 20\<rparr>\<rparr>,
      \<lparr>resource = \<lparr>resource_id = ''b'', resource_timestamp = 20\<rparr>\<rparr>]"

section \<open>The language of the selector pattern\<close>

lemma accepts_Chr: "accepts (Chr c) k (i, s) = (\<exists>xs. s = c # xs \<and> k (Suc i, xs))"
  by (auto simp: accepts_def split: list.splits)

lemma accepts_Eol: "accepts Eol k (i, s) = (s = [] \<and> k (i, s))"
  by (simp add: accepts_def)

lemma accepts_Seq: "accepts (Seq a b) k st = accepts a (accepts b k) st"
  by (auto simp: accepts_def list_ex_iff)

lemma accepts_Alt: "accepts (Alt a b) k st = (accepts a k st \<or> accepts b k st)"
  by (auto simp: accepts_def list_ex_iff)

lemma accepts_Opt: "accepts (Opt a) k st = (accepts a k st \<or> k st)"
  by (auto simp: accepts_def list_ex_iff)

lemmas accepts_simps = accepts_Chr accepts_Eol accepts_Seq accepts_Alt accepts_Opt

text \<open>With \<^verbatim>\<open>^\<close> in front, only the start index 0 can match.\<close>

lemma regex_test_Bol: "regex_test (Seq Bol r) s = (rmatch r (0, s) \<noteq> [])"
  unfolding regex_test_def list_ex_iff by (auto simp del: upt_Suc)

lemma regex_test_accepts: "regex_test (Seq Bol r) s = accepts r (\<lambda>_. True) (0, s)"
  by (cases "rmatch r (0, s)") (simp_all add: regex_test_Bol accepts_def)

lemma SELECTOR_REGEX_language:
  "regex_test SELECTOR_REGEX t \<longleftrightarrow> t \<in> set selector_tokens"
  unfolding SELECTOR_REGEX_def regex_test_accepts selector_tokens_def
  apply (simp add: accepts_simps)
  apply (intro iffI; elim disjE exE conjE; simp)
  done

lemma selector_tokens_lower:
  "t \<in> set selector_tokens \<Longrightarrow> map ascii_lower t = t"
  by (auto simp: selector_tokens_def ascii_lower_def)

lemma selector_tokens_prefix:
  "t \<in> set selector_tokens \<longleftrightarrow>
     (t \<noteq> [] \<and> (prefix t ''channel'' \<or> prefix t ''sender'')) \<or> t = ''!''"
  unfolding selector_tokens_def
  apply (simp add: prefix_Cons)
  apply (intro iffI; elim disjE exE conjE; simp)
  done

section \<open>Facts about the compiler\<close>

lemma QueryBody_not_own_wrapper: "q \<noteq> Bool [q] [] []"
proof
  assume "q = Bool [q] [] []"
  then have "size q = size (Bool [q] [] [])" by simp
  then show False by simp
qed

lemma resolve_error: "resolve cs seg = Inl e \<Longrightarrow> e = UnknownSelectorError"
  by (auto simp: resolve_def split: option.splits if_splits)

lemma resolve_unknown:
  assumes "selectorToken seg = Some t" "t \<noteq> []" "\<forall>c\<in>set cs. \<not> claims c seg"
  shows "resolve cs seg = Inl UnknownSelectorError"
proof -
  from assms(3) have "find (\<lambda>c. claims c seg) cs = None"
    by (simp add: find_None_iff)
  with assms(1,2) show ?thesis by (simp add: resolve_def)
qed

text \<open>A pass fails when it fails on one element and can fail in one way only.\<close>

lemma traverse_fails:
  assumes "x \<in> set xs" "f x = Inl e" "\<And>y e'. f y = Inl e' \<Longrightarrow> e' = e"
  shows "traverse f xs = Inl e"
  using assms(1)
proof (induction xs)
  case Nil
  then show ?case by simp
next
  case (Cons a xs)
  show ?case
  proof (cases "f a")
    case (Inl e')
    with assms(3) show ?thesis by simp
  next
    case (Inr y)
    with Cons assms(2) have "x \<in> set xs" by auto
    with Cons.IH have "traverse f xs = Inl e" by simp
    with Inr show ?thesis by simp
  qed
qed

lemma matches_c: "regex_test SELECTOR_REGEX ''c''"
  by (simp add: SELECTOR_REGEX_language selector_tokens_def)

text \<open>
  A segment with an empty selector is claimed by no selector rule that rejects the
  empty token, and is compiled as free text over the default fields.
\<close>

lemma empty_selector_is_free_text:
  "compile scenario_tokenize '':arte'' [ChannelSegmentConverter] [Title, Description]
     = Inr (TextMatch [Title, Description] ''arte'' And)"
  by (simp add: compile_def per_segment_nodes_def scenario_tokenize_def resolve_def
      convert_segment_def fold_nodes_def ChannelSegmentConverter_def
      SELECTOR_REGEX_language selector_tokens_def)

section \<open>Facts about the filmlist manager\<close>

lemma compareTime_run:
  assumes "currentTimestamp env w = (now, w1)" and "interval \<le> now - keyValue_get key 0 w"
  shows "compareTime env key interval f w =
           (case f w1 of (Some thrown, w2) \<Rightarrow> (Some thrown, w2)
                       | (None, w2) \<Rightarrow> (None, keyValue_set key now w2))"
  using assms by (simp add: compareTime_def)

lemma compareTime_skip:
  assumes "currentTimestamp env w = (now, w1)" and "\<not> interval \<le> now - keyValue_get key 0 w"
  shows "compareTime env key interval f w = (None, w1)"
  using assms by (simp add: compareTime_def)

lemma currentTimestamp_frame:
  assumes "currentTimestamp env w = (now, w1)"
  shows "keyValues w1 = keyValues w \<and> calls w1 = calls w"
  using assms by (auto simp: currentTimestamp_def)

lemma keyValue_set_written:
  "calls (keyValue_set key now w2) = calls w2 @ [KeyValueSet key now] \<and>
   keyValue_get key 0 (keyValue_set key now w2) = now"
  by (cases key) (simp_all add: keyValue_set_def keyValue_get_def)

lemma enqueueFilmlist_effect:
  "\<exists>i. filmlistImports (enqueueFilmlist env fl w) = filmlistImports w @ [i] \<and>
       queueItems (enqueueFilmlist env fl w) = queueItems w @ [queueItem_of i] \<and>
       calls (enqueueFilmlist env fl w)
         = calls w @ [ImportSaved i, ItemEnqueued (queueItem_of i)] \<and>
       pending_import i \<and> import_resource i = resource fl"
  by (simp add: enqueueFilmlist_def currentTimestamp_def save_def enqueue_def queueItem_of_def
      pending_import_def Let_def)

lemma hasResource_append:
  "filmlistImports w' = filmlistImports w @ new \<Longrightarrow> hasResource rid w \<Longrightarrow> hasResource rid w'"
  by (auto simp: hasResource_def list_ex_iff)

lemma hasResource_cong:
  "filmlistImports w = filmlistImports w' \<Longrightarrow> hasResource rid w = hasResource rid w'"
  by (simp add: hasResource_def)

lemma enqueued_only_missing_cong:
  "filmlistImports w = filmlistImports w' \<Longrightarrow>
     enqueued_only_missing fls minTs w new = enqueued_only_missing fls minTs w' new"
proof (induction new arbitrary: w w')
  case Nil
  show ?case by simp
next
  case (Cons i new)
  have "enqueued_only_missing fls minTs (w\<lparr>filmlistImports := filmlistImports w @ [i]\<rparr>) new
          = enqueued_only_missing fls minTs (w'\<lparr>filmlistImports := filmlistImports w' @ [i]\<rparr>) new"
    by (rule Cons.IH) (simp add: Cons.prems)
  with hasResource_cong [OF Cons.prems] show ?case by simp
qed

lemma enqueued_only_missing_more_offered:
  "enqueued_only_missing rest minTs w new \<Longrightarrow> enqueued_only_missing (fl # rest) minTs w new"
  by (induction new arbitrary: w) auto

text \<open>
  The run of \<^verbatim>\<open>enqueueMissingFilmlists\<close>, by induction on the filmlists offered, for any
  world it starts in: it adds imports at the end of the repository, a queue item for
  each of them at the end of the queue, and makes the two calls for each import one
  after the other, the save first.
\<close>

lemma enqueueMissingFilmlists_effect:
  "\<exists>new. filmlistImports (enqueueMissingFilmlists env fls minTs w) = filmlistImports w @ new \<and>
     queueItems (enqueueMissingFilmlists env fls minTs w) = queueItems w @ map queueItem_of new \<and>
     calls (enqueueMissingFilmlists env fls minTs w) =
       calls w @ concat (map (\<lambda>i. [ImportSaved i, ItemEnqueued (queueItem_of i)]) new) \<and>
     enqueued_only_missing fls minTs w new"
proof (induction fls arbitrary: w)
  case Nil
  show ?case by simp
next
  case (Cons fl rest)
  define missing where
    "missing \<longleftrightarrow> minTs \<le> resource_timestamp (resource fl)
                  \<and> \<not> hasResource (resource_id (resource fl)) w"
  define w1 where "w1 = (if missing then enqueueFilmlist env fl w else w)"
  define w2 where "w2 = w1\<lparr>tokenPolls := Suc (tokenPolls w1)\<rparr>"
  define w' where "w' = enqueueMissingFilmlists env (fl # rest) minTs w"
  have unfold: "w' = (if cancellationIsSet env (tokenPolls w1) then w2
                      else enqueueMissingFilmlists env rest minTs w2)"
    by (simp add: w'_def w1_def w2_def missing_def Let_def)
  have polled: "filmlistImports w2 = filmlistImports w1" "queueItems w2 = queueItems w1"
      "calls w2 = calls w1"
    by (simp_all add: w2_def)
  obtain more where more:
      "filmlistImports w' = filmlistImports w1 @ more"
      "queueItems w' = queueItems w1 @ map queueItem_of more"
      "calls w' = calls w1 @ concat (map (\<lambda>i. [ImportSaved i, ItemEnqueued (queueItem_of i)]) more)"
      "enqueued_only_missing rest minTs w1 more"
  proof (cases "cancellationIsSet env (tokenPolls w1)")
    case True
    with unfold have "w' = w2" by simp
    with polled show ?thesis by (intro that [of "[]"]) simp_all
  next
    case False
    with unfold have run: "w' = enqueueMissingFilmlists env rest minTs w2" by simp
    from Cons.IH [of w2] obtain new where new:
        "filmlistImports (enqueueMissingFilmlists env rest minTs w2) = filmlistImports w2 @ new"
        "queueItems (enqueueMissingFilmlists env rest minTs w2)
           = queueItems w2 @ map queueItem_of new"
        "calls (enqueueMissingFilmlists env rest minTs w2) =
           calls w2 @ concat (map (\<lambda>i. [ImportSaved i, ItemEnqueued (queueItem_of i)]) new)"
        "enqueued_only_missing rest minTs w2 new"
      by blast
    from new(4) have "enqueued_only_missing rest minTs w1 new"
      using enqueued_only_missing_cong [OF polled(1)] by simp
    with new(1-3) polled run show ?thesis by (intro that [of new]) simp_all
  qed
  show ?case
  proof (cases missing)
    case True
    then have w1: "w1 = enqueueFilmlist env fl w" by (simp add: w1_def)
    obtain i where i: "filmlistImports w1 = filmlistImports w @ [i]"
        "queueItems w1 = queueItems w @ [queueItem_of i]"
        "calls w1 = calls w @ [ImportSaved i, ItemEnqueued (queueItem_of i)]"
        "pending_import i" "import_resource i = resource fl"
      using enqueueFilmlist_effect [of env fl w] unfolding w1 by auto
    have "filmlistImports w1 = filmlistImports (w\<lparr>filmlistImports := filmlistImports w @ [i]\<rparr>)"
      using i(1) by simp
    from enqueued_only_missing_cong [OF this] more(4)
    have "enqueued_only_missing rest minTs (w\<lparr>filmlistImports := filmlistImports w @ [i]\<rparr>) more"
      by simp
    then have "enqueued_only_missing (fl # rest) minTs
                 (w\<lparr>filmlistImports := filmlistImports w @ [i]\<rparr>) more"
      by (rule enqueued_only_missing_more_offered)
    with True i(4,5) have "enqueued_only_missing (fl # rest) minTs w (i # more)"
      by (simp add: missing_def)
    with more(1-3) i(1-3) show ?thesis
      unfolding w'_def [symmetric] by (intro exI [of _ "i # more"]) simp
  next
    case False
    then have w1: "w1 = w" by (simp add: w1_def)
    from more(4) have "enqueued_only_missing (fl # rest) minTs w more"
      unfolding w1 by (rule enqueued_only_missing_more_offered)
    with more(1-3) show ?thesis
      unfolding w'_def [symmetric] w1 by (intro exI [of _ more]) simp
  qed
qed

text \<open>
  With the token set from the start, the first filmlist offered is still dealt with,
  and the enumeration ends at the poll that follows it.
\<close>

lemma cancelled_run:
  "filmlistImports
     (enqueueMissingFilmlists (example_environment\<lparr>cancellationIsSet := (\<lambda>n. True)\<rparr>)
        example_filmlists 0 example_world)
     = [\<lparr>import_resource = \<lparr>resource_id = ''a'', resource_timestamp = 5\<rparr>,
         state = ''pending'', enqueueTimestamp = 100000, filmlistMetadata = None,
         importTimestamp = None, importDuration = None, entriesCount = None,
         import_id = ''i''\<rparr>]"
  by (simp add: example_environment_def example_filmlists_def example_world_def
      enqueueFilmlist_def hasResource_def currentTimestamp_def save_def enqueue_def increment_def
      Let_def)

lemma example_run:
  "enqueueMissingFilmlists example_environment example_filmlists 10 example_world =
     example_world\<lparr>filmlistImports :=
         [\<lparr>import_resource = \<lparr>resource_id = ''b'', resource_timestamp = 20\<rparr>,
           state = ''pending'', enqueueTimestamp = 100000, filmlistMetadata = None,
           importTimestamp = None, importDuration = None, entriesCount = None,
           import_id = ''i''\<rparr>],
       queueItems := [\<lparr>filmlistImportId = ''i''\<rparr>],
       enqueuedFilmlistsCount := NaN,
       clockReads := 1,
       tokenPolls := 3,
       calls := [ImportSaved \<lparr>import_resource = \<lparr>resource_id = ''b'', resource_timestamp = 20\<rparr>,
           state = ''pending'', enqueueTimestamp = 100000, filmlistMetadata = None,
           importTimestamp = None, importDuration = None, entriesCount = None,
           import_id = ''i''\<rparr>, ItemEnqueued \<lparr>filmlistImportId = ''i''\<rparr>]\<rparr>"
  by (simp add: example_environment_def example_filmlists_def example_world_def
      enqueueFilmlist_def hasResource_def currentTimestamp_def save_def enqueue_def increment_def
      Let_def)

lemma example_currentTimestamp:
  "currentTimestamp example_environment example_world
     = (100000, example_world\<lparr>clockReads := Suc 0\<rparr>)"
  by (simp add: currentTimestamp_def example_environment_def example_world_def)

section \<open>Claims about the selector rule\<close>

text \<open>
  C1, as it is stated, does not hold: the pattern matches the tokens \<open>c\<close>, \<open>channel\<close>
  and \<open>sender\<close>, and it matches none of their case variants \<open>C\<close>, \<open>Channel\<close> and
  \<open>SENDER\<close>.
\<close>

theorem selector_case_insensitive_counterexample:
  "regex_test SELECTOR_REGEX ''c'' \<and> case_variant ''c'' ''C'' \<and>
   \<not> regex_test SELECTOR_REGEX ''C'' \<and>
   regex_test SELECTOR_REGEX ''channel'' \<and> case_variant ''channel'' ''Channel'' \<and>
   \<not> regex_test SELECTOR_REGEX ''Channel'' \<and>
   regex_test SELECTOR_REGEX ''sender'' \<and> case_variant ''sender'' ''SENDER'' \<and>
   \<not> regex_test SELECTOR_REGEX ''SENDER''"
  by (simp add: SELECTOR_REGEX_language selector_tokens_def case_variant_def ascii_lower_def)

text \<open>
  C1, amended: selector matching for the Channel field is case-sensitive. Among the
  case variants of a token the pattern matches, the pattern matches the token itself
  and no other.
\<close>

theorem selector_case_sensitive:
  assumes "regex_test SELECTOR_REGEX t" and "case_variant t t'"
  shows "regex_test SELECTOR_REGEX t' \<longleftrightarrow> t' = t"
proof
  assume "regex_test SELECTOR_REGEX t'"
  then have "map ascii_lower t' = t'"
    by (simp add: SELECTOR_REGEX_language selector_tokens_lower)
  moreover from assms(1) have "map ascii_lower t = t"
    by (simp add: SELECTOR_REGEX_language selector_tokens_lower)
  ultimately show "t' = t"
    using assms(2) by (simp add: case_variant_def)
next
  assume "t' = t"
  with assms(1) show "regex_test SELECTOR_REGEX t'" by simp
qed

theorem selector_case_sensitive_witness:
  "regex_test SELECTOR_REGEX ''sender'' \<and> case_variant ''sender'' ''SENDER'' \<and>
   (regex_test SELECTOR_REGEX ''SENDER'' \<longleftrightarrow> ''SENDER'' = ''sender'')"
proof -
  have m: "regex_test SELECTOR_REGEX ''sender''"
    by (simp add: SELECTOR_REGEX_language selector_tokens_def)
  have v: "case_variant ''sender'' ''SENDER''"
    by (simp add: case_variant_def ascii_lower_def)
  from selector_case_sensitive [OF m v] m v show ?thesis by simp
qed

text \<open>
  C2: the pattern matches every non-empty prefix of \<open>channel\<close> and every non-empty
  prefix of \<open>sender\<close>, the bare symbol \<open>!\<close>, and no other token; the strict extension
  \<open>channels\<close> is not matched.
\<close>

theorem selector_prefix_completeness:
  "(regex_test SELECTOR_REGEX t \<longleftrightarrow>
      (t \<noteq> [] \<and> (prefix t ''channel'' \<or> prefix t ''sender'')) \<or> t = ''!'') \<and>
   \<not> regex_test SELECTOR_REGEX ''channels''"
  by (simp add: SELECTOR_REGEX_language selector_tokens_prefix)

text \<open>
  C3: the bare symbol \<open>!\<close> is matched by equality only. A token that begins with \<open>!\<close>
  is matched exactly when nothing follows the \<open>!\<close>; so \<open>!\<close> is matched and \<open>!x\<close> is
  not.
\<close>

theorem selector_bare_symbol_exact:
  "regex_test SELECTOR_REGEX (CHR ''!'' # xs) \<longleftrightarrow> xs = []"
  by (simp add: SELECTOR_REGEX_language selector_tokens_def)

text \<open>
  C4: the pattern does not match the empty string, so a segment whose selector is
  empty is not a Channel clause.
\<close>

theorem selector_rejects_empty:
  "\<not> regex_test SELECTOR_REGEX ''''"
  by (simp add: SELECTOR_REGEX_language selector_tokens_def)

section \<open>Claims about the conversion and the compiler\<close>

text \<open>
  C5: for every text \<open>t\<close>, \<^verbatim>\<open>textToQuery\<close> returns a text match whose fields are Channel
  alone, whose text is \<open>t\<close> and whose operator is And.
\<close>

theorem textToQuery_TextMatch:
  "textToQuery t = Inr (TextMatch [Channel] t And)"
  by (simp add: textToQuery_def build_def operator_def text'_def fields'_def
      new_TextQueryBuilder_def FIELD_def)

text \<open>
  C7: when the input has a segment whose selector token is present and non-empty and
  that no registered converter claims, \<^verbatim>\<open>compile\<close> fails with the unknown-selector
  error; it returns no query, so the segment is not compiled as free text.
\<close>

theorem compile_unknown_selector:
  assumes "tokenize input = Inr segments"
    and "segment \<in> set segments"
    and "selectorToken segment = Some t" and "t \<noteq> []"
    and "\<forall>c\<in>set registeredConverters. \<not> claims c segment"
  shows "compile tokenize input registeredConverters defaultFields = Inl UnknownSelectorError"
proof -
  have "resolve registeredConverters segment = Inl UnknownSelectorError"
    using assms(3-5) by (rule resolve_unknown)
  with assms(2)
  have "traverse (resolve registeredConverters) segments = Inl UnknownSelectorError"
    by (rule traverse_fails) (rule resolve_error)
  with assms(1) show ?thesis
    by (simp add: compile_def per_segment_nodes_def)
qed

theorem compile_unknown_selector_witness:
  "compile scenario_tokenize ''xyz:value'' [ChannelSegmentConverter] [Title, Description]
     = Inl UnknownSelectorError"
proof -
  let ?seg = "\<lparr>rawText = ''xyz:value'', selectorToken = Some ''xyz'',
                valueText = ''value'', negated = False\<rparr>"
  have 1: "scenario_tokenize ''xyz:value'' = Inr [?seg]"
    by (simp add: scenario_tokenize_def)
  have 2: "?seg \<in> set [?seg]" by simp
  have 3: "selectorToken ?seg = Some ''xyz''" by simp
  have 4: "''xyz'' \<noteq> []" by simp
  have 5: "\<forall>c\<in>set [ChannelSegmentConverter]. \<not> claims c ?seg"
    by (simp add: ChannelSegmentConverter_def SELECTOR_REGEX_language selector_tokens_def)
  from compile_unknown_selector [where tokenize = scenario_tokenize, OF 1 2 3 4 5]
  show ?thesis .
qed

text \<open>
  C8: when the per-segment nodes of an input are exactly one node that is not negated
  and no negated node, \<^verbatim>\<open>compile\<close> returns that node, and not a boolean node that
  wraps it.
\<close>

theorem compile_single_clause:
  assumes "per_segment_nodes tokenize input registeredConverters defaultFields = Inr nodes"
    and "map snd (filter (\<lambda>n. \<not> fst n) nodes) = [node]"
    and "filter fst nodes = []"
  shows "compile tokenize input registeredConverters defaultFields = Inr node \<and>
         compile tokenize input registeredConverters defaultFields \<noteq> Inr (Bool [node] [] [])"
  using assms QueryBody_not_own_wrapper [of node]
  by (simp add: compile_def fold_nodes_def)

theorem compile_single_clause_witness:
  "compile scenario_tokenize ''c:arte'' [ChannelSegmentConverter] [Title, Description]
     = Inr (TextMatch [Channel] ''arte'' And)"
proof -
  have p: "per_segment_nodes scenario_tokenize ''c:arte'' [ChannelSegmentConverter]
             [Title, Description]
           = Inr [(False, TextMatch [Channel] ''arte'' And)]"
    by (simp add: per_segment_nodes_def scenario_tokenize_def resolve_def convert_segment_def
        ChannelSegmentConverter_def matches_c textToQuery_def build_def operator_def text'_def
        fields'_def new_TextQueryBuilder_def FIELD_def)
  have must: "map snd (filter (\<lambda>n. \<not> fst n) [(False, TextMatch [Channel] ''arte'' And)])
                = [TextMatch [Channel] ''arte'' And]"
    by simp
  have mustNot: "filter fst [(False, TextMatch [Channel] ''arte'' And)] = []"
    by simp
  from compile_single_clause [OF p must mustNot] show ?thesis by simp
qed

section \<open>Claims about the filmlist manager\<close>

text \<open>
  C9: let \<open>now\<close> be the clock reading \<^verbatim>\<open>compareTime\<close> takes and \<open>w1\<close> the world after the
  reading. Whether the guarded function has any part in the outcome is decided by the
  comparison alone: the outcome differs from that of doing nothing for some function
  exactly when \<open>now\<close> minus the stored timestamp (0 when none is stored) is at least the
  interval. When it is, the function is run from \<open>w1\<close>; if it completes, the timestamp
  \<open>now\<close> is written to the world the function has left, as the last call, and is the
  stored timestamp from then on; if it throws, what it threw is passed on and the world
  is the one the function has left, with no write added. When the interval has not
  elapsed, the function is not run, and the stored values and the calls made are as they
  were.
\<close>

theorem compareTime_guard:
  assumes "currentTimestamp env w = (now, w1)"
  shows
    "((\<exists>f. compareTime env key interval f w \<noteq> (None, w1))
        \<longleftrightarrow> interval \<le> now - keyValue_get key 0 w) \<and>
     (interval \<le> now - keyValue_get key 0 w \<longrightarrow>
        (\<forall>w2. func w1 = (None, w2) \<longrightarrow>
           compareTime env key interval func w = (None, keyValue_set key now w2) \<and>
           calls (keyValue_set key now w2) = calls w2 @ [KeyValueSet key now] \<and>
           keyValue_get key 0 (keyValue_set key now w2) = now) \<and>
        (\<forall>thrown w2. func w1 = (Some thrown, w2) \<longrightarrow>
           compareTime env key interval func w = (Some thrown, w2))) \<and>
     (\<not> interval \<le> now - keyValue_get key 0 w \<longrightarrow>
        compareTime env key interval func w = (None, w1) \<and>
        keyValues w1 = keyValues w \<and> calls w1 = calls w)"
proof (cases "interval \<le> now - keyValue_get key 0 w")
  case True
  have invoked: "\<exists>f. compareTime env key interval f w \<noteq> (None, w1)"
  proof (intro exI)
    show "compareTime env key interval (\<lambda>v. (Some ''thrown'', v)) w \<noteq> (None, w1)"
      using compareTime_run [OF assms True, of "\<lambda>v. (Some ''thrown'', v)"] by simp
  qed
  have completed: "compareTime env key interval func w = (None, keyValue_set key now w2)"
    if "func w1 = (None, w2)" for w2
    using compareTime_run [OF assms True, of func] that by simp
  have thrown: "compareTime env key interval func w = (Some e, w2)"
    if "func w1 = (Some e, w2)" for e w2
    using compareTime_run [OF assms True, of func] that by simp
  from True invoked completed thrown show ?thesis
    by (simp add: keyValue_set_written)
next
  case False
  have "\<not> (\<exists>f. compareTime env key interval f w \<noteq> (None, w1))"
    using compareTime_skip [OF assms False] by simp
  with False show ?thesis
    using compareTime_skip [OF assms False, of func] currentTimestamp_frame [OF assms]
    by simp
qed

theorem compareTime_guard_witness:
  "compareTime example_environment LastLatestCheck 60000 (checkLatest example_environment)
       example_world
     = (None, keyValue_set LastLatestCheck 100000
         (enqueueMissingFilmlists example_environment (getLatest example_environment) 0
            (example_world\<lparr>clockReads := Suc 0\<rparr>))) \<and>
   compareTime example_environment LastLatestCheck 60000 (\<lambda>v. (Some ''failed'', v))
       example_world
     = (Some ''failed'', example_world\<lparr>clockReads := Suc 0\<rparr>) \<and>
   compareTime example_environment LastArchiveCheck 3600000 (checkArchive example_environment)
       example_world
     = (None, example_world\<lparr>clockReads := Suc 0\<rparr>)"
proof -
  have latest: "(60000::int) \<le> 100000 - keyValue_get LastLatestCheck 0 example_world"
    by (simp add: keyValue_get_def example_world_def)
  have archive: "\<not> (3600000::int) \<le> 100000 - keyValue_get LastArchiveCheck 0 example_world"
    by (simp add: keyValue_get_def example_world_def)
  have completes: "checkLatest example_environment (example_world\<lparr>clockReads := Suc 0\<rparr>)
      = (None, enqueueMissingFilmlists example_environment (getLatest example_environment) 0
            (example_world\<lparr>clockReads := Suc 0\<rparr>))"
    by (simp add: checkLatest_def)
  have 1: "compareTime example_environment LastLatestCheck 60000
       (checkLatest example_environment) example_world
     = (None, keyValue_set LastLatestCheck 100000
         (enqueueMissingFilmlists example_environment (getLatest example_environment) 0
            (example_world\<lparr>clockReads := Suc 0\<rparr>)))"
    using compareTime_guard [OF example_currentTimestamp, of LastLatestCheck 60000
        "checkLatest example_environment"] latest completes
    by simp
  have 2: "compareTime example_environment LastLatestCheck 60000 (\<lambda>v. (Some ''failed'', v))
       example_world
     = (Some ''failed'', example_world\<lparr>clockReads := Suc 0\<rparr>)"
    using compareTime_guard [OF example_currentTimestamp, of LastLatestCheck 60000
        "\<lambda>v. (Some ''failed'', v)"] latest
    by simp
  have 3: "compareTime example_environment LastArchiveCheck 3600000
       (checkArchive example_environment) example_world
     = (None, example_world\<lparr>clockReads := Suc 0\<rparr>)"
    using compareTime_guard [OF example_currentTimestamp, of LastArchiveCheck 3600000
        "checkArchive example_environment"] archive
    by simp
  from 1 2 3 show ?thesis by simp
qed

text \<open>
  C10: a run of \<^verbatim>\<open>enqueueMissingFilmlists\<close> adds imports at the end of the repository
  and, for each of them and in the same order, a queue item that carries the id the
  repository gave to the import; the calls it makes are, for each import in turn, the
  save of the import followed by the enqueueing of its item. Every import it adds is
  pending, with null metadata, import timestamp, import duration and entries count; its
  resource is that of one of the filmlists offered and has a timestamp of at least the
  minimum timestamp; and when the import was added the repository held no import of
  that resource, neither from before the run nor from earlier in the run.
\<close>

theorem enqueueMissingFilmlists_only_missing:
  "filmlistImports (enqueueMissingFilmlists env filmlists minimumTimestamp w)
     = filmlistImports w
         @ added_imports w (enqueueMissingFilmlists env filmlists minimumTimestamp w) \<and>
   queueItems (enqueueMissingFilmlists env filmlists minimumTimestamp w)
     = queueItems w @ map queueItem_of
         (added_imports w (enqueueMissingFilmlists env filmlists minimumTimestamp w)) \<and>
   calls (enqueueMissingFilmlists env filmlists minimumTimestamp w)
     = calls w @ concat (map (\<lambda>i. [ImportSaved i, ItemEnqueued (queueItem_of i)])
         (added_imports w (enqueueMissingFilmlists env filmlists minimumTimestamp w))) \<and>
   enqueued_only_missing filmlists minimumTimestamp w
     (added_imports w (enqueueMissingFilmlists env filmlists minimumTimestamp w))"
proof -
  obtain new where new:
      "filmlistImports (enqueueMissingFilmlists env filmlists minimumTimestamp w)
         = filmlistImports w @ new"
      "queueItems (enqueueMissingFilmlists env filmlists minimumTimestamp w)
         = queueItems w @ map queueItem_of new"
      "calls (enqueueMissingFilmlists env filmlists minimumTimestamp w) =
         calls w @ concat (map (\<lambda>i. [ImportSaved i, ItemEnqueued (queueItem_of i)]) new)"
      "enqueued_only_missing filmlists minimumTimestamp w new"
    using enqueueMissingFilmlists_effect [of env filmlists minimumTimestamp w] by blast
  from new(1)
  have "added_imports w (enqueueMissingFilmlists env filmlists minimumTimestamp w) = new"
    by (simp add: added_imports_def)
  with new show ?thesis by simp
qed

theorem enqueueMissingFilmlists_only_missing_witness:
  "added_imports example_world
      (enqueueMissingFilmlists example_environment example_filmlists 10 example_world)
     = [\<lparr>import_resource = \<lparr>resource_id = ''b'', resource_timestamp = 20\<rparr>,
         state = ''pending'', enqueueTimestamp = 100000, filmlistMetadata = None,
         importTimestamp = None, importDuration = None, entriesCount = None,
         import_id = ''i''\<rparr>] \<and>
   queueItems (enqueueMissingFilmlists example_environment example_filmlists 10 example_world)
     = [\<lparr>filmlistImportId = ''i''\<rparr>] \<and>
   enqueued_only_missing example_filmlists 10 example_world
     [\<lparr>import_resource = \<lparr>resource_id = ''b'', resource_timestamp = 20\<rparr>,
       state = ''pending'', enqueueTimestamp = 100000, filmlistMetadata = None,
       importTimestamp = None, importDuration = None, entriesCount = None,
       import_id = ''i''\<rparr>]"
proof -
  have added: "added_imports example_world
      (enqueueMissingFilmlists example_environment example_filmlists 10 example_world)
     = [\<lparr>import_resource = \<lparr>resource_id = ''b'', resource_timestamp = 20\<rparr>,
         state = ''pending'', enqueueTimestamp = 100000, filmlistMetadata = None,
         importTimestamp = None, importDuration = None, entriesCount = None,
         import_id = ''i''\<rparr>]"
    unfolding example_run by (simp add: added_imports_def example_world_def)
  have empty: "queueItems example_world = []"
    by (simp add: example_world_def)
  from enqueueMissingFilmlists_only_missing
         [of example_environment example_filmlists 10 example_world]
  show ?thesis
    unfolding added empty by (simp add: queueItem_of_def)
qed

end
